theory Spec2Isabelle
  imports Complex_Main
begin

section \<open>The practice script \<open>bugFix/buggy_script.py\<close>\<close>

text \<open>
  The script defines five small functions and a harness \<open>run_tests\<close> that calls each of
  them once. Every function is modelled from its own definition in the source. Python
  exceptions are values of type \<open>error\<close>; a function that can raise returns
  \<open>error + 'a\<close> with \<open>Inl\<close> for the exception.

  Two definitions of the source are not valid Python: the header of
  \<open>calculate_average\<close> (line 22) has no colon, and the condition of the \<open>if\<close> in
  \<open>is_palindrome\<close> (line 52) is written with the assignment token \<open>=\<close>. Python
  rejects both with a \<open>SyntaxError\<close>. The model keeps the offending source text as data
  and attributes the \<open>SyntaxError\<close> to the function whose definition contains it, so that the
  remaining functions can be studied as they are written. The harness calls both faulty
  definitions; Python compiles the script before it executes any statement, so the run of
  the harness ends with the \<open>SyntaxError\<close> before its first \<open>print\<close>.
\<close>

subsection \<open>Exceptions and list subscripts\<close>

datatype error = SyntaxError | IndexError | ZeroDivisionError

text \<open>
  The subscript \<open>xs[i]\<close> of a Python list: an index from \<open>0\<close> reads from the front, an
  index from \<open>-len(xs)\<close> to \<open>-1\<close> reads from the back, any other index raises.
\<close>

definition subscript :: "'a list \<Rightarrow> int \<Rightarrow> error + 'a" where
  "subscript xs i =
     (if 0 \<le> i \<and> i < int (length xs) then Inr (xs ! nat i)
      else if - int (length xs) \<le> i \<and> i < 0 then Inr (xs ! nat (int (length xs) + i))
      else Inl IndexError)"

text \<open>
  Python's true division \<open>a / b\<close>, taken as the exact quotient of rationals: division by
  zero raises, and the rounding of the quotient to a 64-bit float is not modelled.
\<close>

definition true_div :: "rat \<Rightarrow> rat \<Rightarrow> error + rat" where
  "true_div a b = (if b = 0 then Inl ZeroDivisionError else Inr (a / b))"

subsection \<open>The two syntactic requirements the source misses\<close>

text \<open>The header line of a compound statement (\<open>def\<close>, \<open>if\<close>, \<open>for\<close>) ends with a colon.\<close>

definition header_ok :: "string \<Rightarrow> bool" where
  "header_ok line = (line \<noteq> [] \<and> last line = CHR '':'')"

text \<open>
  The condition of an \<open>if\<close> is an expression; the assignment token \<open>=\<close> cannot occur
  in it (comparison is the token \<open>==\<close>).
\<close>

definition condition_ok :: "string list \<Rightarrow> bool" where
  "condition_ok tokens = (''='' \<notin> set tokens)"

subsection \<open>\<open>calculate_average\<close> (lines 22 to 29)\<close>

text \<open>Line 22 as it stands in the source.\<close>

definition calculate_average_header :: string where
  "calculate_average_header = ''def calculate_average(numbers)''"

definition calculate_average_body :: "rat list \<Rightarrow> error + rat" where
  "calculate_average_body numbers =
     (if length numbers = 0 then Inr 0
      else (let total = sum_list numbers
            in true_div total (of_nat (length numbers))))"

definition calculate_average :: "rat list \<Rightarrow> error + rat" where
  "calculate_average numbers =
     (if header_ok calculate_average_header then calculate_average_body numbers
      else Inl SyntaxError)"

subsection \<open>\<open>find_max_value\<close> (lines 32 to 42)\<close>

text \<open>
  The loop \<open>for i in range(len(numbers))\<close> runs over the list of indices; the running
  maximum is the accumulator.
\<close>

fun max_loop :: "('a::linorder) list \<Rightarrow> nat list \<Rightarrow> 'a \<Rightarrow> error + 'a" where
  "max_loop numbers [] max_value = Inr max_value"
| "max_loop numbers (i # is) max_value =
     (case subscript numbers (int i) of
        Inl e \<Rightarrow> Inl e
      | Inr x \<Rightarrow> max_loop numbers is (if x > max_value then x else max_value))"

definition find_max_value :: "('a::linorder) list \<Rightarrow> error + 'a option" where
  "find_max_value numbers =
     (if numbers = [] then Inr None
      else (case subscript numbers 0 of
              Inl e \<Rightarrow> Inl e
            | Inr first \<Rightarrow>
                (case max_loop numbers [0..<length numbers] first of
                   Inl e \<Rightarrow> Inl e
                 | Inr max_value \<Rightarrow> Inr (Some max_value))))"

subsection \<open>Text: \<open>lower\<close> and \<open>replace(" ", "")\<close>\<close>

text \<open>
  A character is a code point below 256. \<open>str.lower\<close> maps the capital letters of that
  range (A to Z, and the accented capitals 192 to 222 except the multiplication sign 215)
  to the letter 32 places further on, and leaves every other character alone.
\<close>

definition lower_char :: "char \<Rightarrow> char" where
  "lower_char c =
     (let n = (of_char c :: nat)
      in if (65 \<le> n \<and> n \<le> 90) \<or> (192 \<le> n \<and> n \<le> 222 \<and> n \<noteq> 215)
         then char_of (n + 32) else c)"

definition lower :: "string \<Rightarrow> string" where
  "lower text = map lower_char text"

definition remove_spaces :: "string \<Rightarrow> string" where
  "remove_spaces text = filter (\<lambda>c. c \<noteq> CHR '' '') text"

subsection \<open>\<open>is_palindrome\<close> (lines 45 to 55)\<close>

text \<open>The tokens between \<open>if\<close> and the colon on line 52, as they stand in the source.\<close>

definition is_palindrome_condition :: "string list" where
  "is_palindrome_condition = [''text'', ''='', ''reversed_text'']"

definition is_palindrome_body :: "string \<Rightarrow> bool" where
  "is_palindrome_body text0 =
     (let text = remove_spaces (lower text0);
          reversed_text = rev text
      in if text = reversed_text then True else False)"

definition is_palindrome :: "string \<Rightarrow> error + bool" where
  "is_palindrome text =
     (if condition_ok is_palindrome_condition then Inr (is_palindrome_body text)
      else Inl SyntaxError)"

subsection \<open>\<open>count_vowels\<close> (lines 58 to 67)\<close>

definition vowels :: string where
  "vowels = ''aeiou''"

fun count_loop :: "string \<Rightarrow> int \<Rightarrow> int" where
  "count_loop [] count = count"
| "count_loop (char # rest) count =
     count_loop rest (if char \<in> set vowels then count + 1 else count)"

definition count_vowels :: "string \<Rightarrow> int" where
  "count_vowels text = count_loop (lower text) 0 + 1"

subsection \<open>\<open>fibonacci\<close> (lines 70 to 84)\<close>

text \<open>The loop \<open>for i in range(2, n)\<close> runs over the indices \<open>2, ..., n - 1\<close>.\<close>

fun fib_loop :: "int list \<Rightarrow> int list \<Rightarrow> error + int list" where
  "fib_loop [] fib_sequence = Inr fib_sequence"
| "fib_loop (i # is) fib_sequence =
     (case subscript fib_sequence (i - 1) of
        Inl e \<Rightarrow> Inl e
      | Inr a \<Rightarrow>
          (case subscript fib_sequence (i - 2) of
             Inl e \<Rightarrow> Inl e
           | Inr b \<Rightarrow> fib_loop is (fib_sequence @ [a + b])))"

definition fibonacci :: "int \<Rightarrow> error + int" where
  "fibonacci n =
     (if n \<le> 0 then Inr 0
      else if n = 1 then Inr 1
      else (case fib_loop [2..n - 1] [0, 1] of
              Inl e \<Rightarrow> Inl e
            | Inr fib_sequence \<Rightarrow> subscript fib_sequence (n - 1)))"

text \<open>
  The standard Fibonacci sequence of the contract, \<open>F(0) = 0\<close>, \<open>F(1) = 1\<close>,
  \<open>F(n) = F(n - 1) + F(n - 2)\<close>, written from the specification's words to compare the
  code with.
\<close>

fun F_spec :: "nat \<Rightarrow> int" where
  "F_spec 0 = 0"
| "F_spec (Suc 0) = 1"
| "F_spec (Suc (Suc n)) = F_spec (Suc n) + F_spec n"

subsection \<open>The harness \<open>run_tests\<close> (lines 87 to 151)\<close>

text \<open>The values the harness compares and prints.\<close>

datatype pyval = PNum rat | PBool bool | PNone

text \<open>Python's \<open>==\<close> on these values: a boolean is the integer 0 or 1.\<close>

fun py_eq :: "pyval \<Rightarrow> pyval \<Rightarrow> bool" where
  "py_eq (PNum a) (PNum b) = (a = b)"
| "py_eq (PBool a) (PBool b) = (a = b)"
| "py_eq (PNum a) (PBool b) = (a = (if b then 1 else 0))"
| "py_eq (PBool a) (PNum b) = ((if a then 1 else 0) = b)"
| "py_eq PNone PNone = True"
| "py_eq PNone (PNum b) = False"
| "py_eq PNone (PBool b) = False"
| "py_eq (PNum a) PNone = False"
| "py_eq (PBool a) PNone = False"

text \<open>
  One constructor for each \<open>print\<close> of the harness: the opening line, the title of test
  \<open>k\<close>, the line of a passed and of a failed comparison (with the two values it shows),
  the rule of 40 equals signs, and the two lines of either summary.
\<close>

datatype line =
    Running
  | Title nat
  | Passed pyval pyval
  | Failed pyval pyval
  | Rule
  | AllPassed
  | WorkingCorrectly
  | SomeFailed
  | KeepDebugging

record harness_state =
  printed :: "line list"
  all_passed :: bool
  raised :: "error option"

definition print :: "line \<Rightarrow> harness_state \<Rightarrow> harness_state" where
  "print l st = st\<lparr>printed := printed st @ [l]\<rparr>"

text \<open>
  One test block: print the title, call the function, compare, print the verdict. The
  harness has no \<open>try\<close>: an exception of the call ends the run, and nothing after it is
  executed.
\<close>

definition test_case :: "nat \<Rightarrow> error + pyval \<Rightarrow> pyval \<Rightarrow> harness_state \<Rightarrow> harness_state" where
  "test_case k call expected st =
     (case raised st of
        Some e \<Rightarrow> st
      | None \<Rightarrow>
          (let st1 = print (Title k) st
           in case call of
                Inl e \<Rightarrow> st1\<lparr>raised := Some e\<rparr>
              | Inr result \<Rightarrow>
                  if py_eq result expected then print (Passed result expected) st1
                  else (print (Failed result expected) st1)\<lparr>all_passed := False\<rparr>))"

definition summary :: "harness_state \<Rightarrow> harness_state" where
  "summary st =
     (case raised st of
        Some e \<Rightarrow> st
      | None \<Rightarrow>
          (let st1 = print Rule st;
               st2 = (if all_passed st1 then print WorkingCorrectly (print AllPassed st1)
                      else print KeepDebugging (print SomeFailed st1))
           in print Rule st2))"

text \<open>The harness, with the outcomes of its five calls as parameters.\<close>

definition run_tests_with ::
  "error + pyval \<Rightarrow> error + pyval \<Rightarrow> error + pyval \<Rightarrow> error + pyval \<Rightarrow> error + pyval
     \<Rightarrow> harness_state" where
  "run_tests_with c1 c2 c3 c4 c5 =
     (let st0 = print Running \<lparr>printed = [], all_passed = True, raised = None\<rparr>;
          st1 = test_case 1 c1 (PNum 3) st0;
          st2 = test_case 2 c2 (PNum 9) st1;
          st3 = test_case 3 c3 (PBool True) st2;
          st4 = test_case 4 c4 (PNum 3) st3;
          st5 = test_case 5 c5 (PNum 8) st4
      in summary st5)"

definition of_option :: "rat option \<Rightarrow> pyval" where
  "of_option r = (case r of None \<Rightarrow> PNone | Some v \<Rightarrow> PNum v)"

text \<open>
  The script is compiled as a whole before \<open>run_tests\<close> is entered: both faulty
  fragments must be accepted for any statement of the harness to run.
\<close>

definition script_compiles :: bool where
  "script_compiles =
     (header_ok calculate_average_header \<and> condition_ok is_palindrome_condition)"

text \<open>
  The harness of the script, with its five calls. When the script does not compile the
  run ends with \<open>SyntaxError\<close> and nothing is printed (the flag \<open>all_passed\<close> is never
  assigned then; the record holds the value line 91 would give it).
\<close>

definition run_tests :: harness_state where
  "run_tests =
     (if script_compiles
      then run_tests_with
             (map_sum id PNum (calculate_average [1, 2, 3, 4, 5]))
             (map_sum id of_option (find_max_value [1, 5, 3, 9, 2]))
             (map_sum id PBool (is_palindrome ''radar''))
             (Inr (PNum (of_int (count_vowels ''hello world''))))
             (map_sum id (\<lambda>r. PNum (of_int r)) (fibonacci 6))
      else \<lparr>printed = [], all_passed = True, raised = Some SyntaxError\<rparr>)"

section \<open>Properties\<close>

subsection \<open>Subscripts inside the bounds\<close>

lemma subscript_nat: "i < length xs \<Longrightarrow> subscript xs (int i) = Inr (xs ! i)"
  by (simp add: subscript_def)

subsection \<open>\<open>find_max_value\<close>\<close>

text \<open>
  While every index of the loop is inside the list, no subscript raises and the loop
  folds \<open>max\<close> over the elements it visits.
\<close>

lemma max_loop_fold:
  "\<forall>i \<in> set is. i < length numbers \<Longrightarrow>
   max_loop numbers is m = Inr (fold max (map ((!) numbers) is) m)"
proof (induction "is" arbitrary: m)
  case Nil
  then show ?case by simp
next
  case (Cons i "is")
  have step: "(if m < numbers ! i then numbers ! i else m) = max (numbers ! i) m"
    by (auto simp: max_def)
  from Cons.prems have "i < length numbers" by simp
  then have "subscript numbers (int i) = Inr (numbers ! i)" by (rule subscript_nat)
  with Cons show ?case by (simp add: step)
qed

lemma find_max_value_nonempty:
  assumes "S \<noteq> []"
  shows "find_max_value S = Inr (Some (Max (set S)))"
proof -
  from assms have len: "0 < length S" by simp
  then have first: "subscript S 0 = Inr (S ! 0)"
    using subscript_nat [of 0 S] by simp
  have loop: "max_loop S [0..<length S] (S ! 0) = Inr (fold max S (S ! 0))"
    using max_loop_fold [of "[0..<length S]" S "S ! 0"] by (simp add: map_nth)
  have "fold max S (S ! 0) = Max (set (S ! 0 # S))"
    by (simp only: Max.set_eq_fold)
  also have "set (S ! 0 # S) = set S"
    using nth_mem [OF len] by (simp add: insert_absorb)
  finally show ?thesis
    using assms first loop by (simp add: find_max_value_def)
qed

text \<open>
  Claim C5. \<open>find_max_value\<close> of the empty sequence returns \<open>None\<close>, without raising,
  and of every non-empty sequence \<open>S\<close> it returns the greatest element of \<open>S\<close>, wherever
  that element stands and whatever the signs of the elements are.
\<close>

theorem find_max_value_maximum:
  "find_max_value ([] :: ('a::linorder) list) = Inr None \<and>
   ((S :: 'a list) \<noteq> [] \<longrightarrow> find_max_value S = Inr (Some (Max (set S))))"
  by (simp add: find_max_value_nonempty) (simp add: find_max_value_def)

text \<open>
  The theorem at a sequence of negative numbers, at one with its maximum first and at one
  with its maximum last.
\<close>

theorem find_max_value_maximum_witness:
  "find_max_value [-5, -2, -10, -1 :: int] = Inr (Some (-1)) \<and>
   find_max_value [10, 5, 3, 1 :: int] = Inr (Some 10) \<and>
   find_max_value [1, 3, 5, 10 :: int] = Inr (Some 10)"
  using find_max_value_maximum [of "[-5, -2, -10, -1 :: int]"]
        find_max_value_maximum [of "[10, 5, 3, 1 :: int]"]
        find_max_value_maximum [of "[1, 3, 5, 10 :: int]"]
  by simp

text \<open>
  Claim C10. For every non-empty sequence \<open>S\<close>, \<open>find_max_value S\<close> returns a value, and
  that value is an element of \<open>S\<close>.
\<close>

theorem find_max_value_member:
  "S \<noteq> [] \<Longrightarrow> \<exists>v. find_max_value S = Inr (Some v) \<and> v \<in> set S"
  by (simp add: find_max_value_nonempty)

theorem find_max_value_member_witness:
  "\<exists>v. find_max_value [1, 5, 3, 9, 2 :: int] = Inr (Some v) \<and> v \<in> set [1, 5, 3, 9, 2]"
  using find_max_value_member [of "[1, 5, 3, 9, 2 :: int]"] by simp

subsection \<open>\<open>fibonacci\<close>\<close>

lemma F_spec_step: "2 \<le> k \<Longrightarrow> F_spec k = F_spec (k - 1) + F_spec (k - 2)"
proof -
  assume "2 \<le> k"
  then obtain m where "k = Suc (Suc m)" by (metis add_2_eq_Suc le_Suc_ex)
  then show ?thesis by simp
qed

text \<open>
  The loop invariant: before the iteration for index \<open>i\<close> the list holds
  \<open>F(0), ..., F(i - 1)\<close>. After the last iteration, for \<open>j\<close>, it holds
  \<open>F(0), ..., F(j)\<close>.
\<close>

lemma fib_loop_upto:
  "2 \<le> i \<Longrightarrow> i \<le> j + 1 \<Longrightarrow>
   fib_loop [i..j] (map F_spec [0..<nat i]) = Inr (map F_spec [0..<nat (j + 1)])"
proof (induction "nat (j + 1 - i)" arbitrary: i)
  case 0
  then have "i = j + 1" by simp
  then show ?case by simp
next
  case (Suc d)
  then have le: "i \<le> j" and i2: "2 \<le> i" by simp_all
  let ?seq = "map F_spec [0..<nat i]"
  have a: "subscript ?seq (i - 1) = Inr (F_spec (nat i - 1))"
    using i2 by (simp add: subscript_def nat_diff_distrib)
  have b: "subscript ?seq (i - 2) = Inr (F_spec (nat i - 2))"
    using i2 by (simp add: subscript_def nat_diff_distrib)
  have "2 \<le> nat i" using i2 by simp
  then have "F_spec (nat i) = F_spec (nat i - 1) + F_spec (nat i - 2)"
    by (rule F_spec_step)
  moreover have "nat (i + 1) = Suc (nat i)" using i2 by simp
  ultimately have ext:
    "?seq @ [F_spec (nat i - 1) + F_spec (nat i - 2)] = map F_spec [0..<nat (i + 1)]"
    by simp
  have IH: "fib_loop [i + 1..j] (map F_spec [0..<nat (i + 1)]) =
              Inr (map F_spec [0..<nat (j + 1)])"
    using Suc.hyps(1) [of "i + 1"] Suc.hyps(2) i2 le by simp
  have "[i..j] = i # [i + 1..j]" using le by (rule upto_rec1)
  then show ?case using a b ext IH by simp
qed

text \<open>
  What the code returns from 2 on: the loop stops at index \<open>n - 1\<close> and the function
  returns the entry at \<open>n - 1\<close>, which is \<open>F(n - 1)\<close>.
\<close>

lemma fibonacci_value:
  assumes "2 \<le> n"
  shows "fibonacci n = Inr (F_spec (nat (n - 1)))"
proof -
  have init: "[0, 1] = map F_spec [0..<nat 2]"
    by (simp add: upt_rec)
  have "fib_loop [2..n - 1] [0, 1] = Inr (map F_spec [0..<nat n])"
    using fib_loop_upto [of 2 "n - 1"] assms by (simp only: init) simp
  moreover have "subscript (map F_spec [0..<nat n]) (n - 1) = Inr (F_spec (nat (n - 1)))"
    using assms by (simp add: subscript_def)
  ultimately show ?thesis using assms by (simp add: fibonacci_def)
qed

text \<open>
  Claim C1 says that \<open>fibonacci n\<close> is the value at index \<open>n\<close>, so that
  \<open>fibonacci 6\<close> is 8 and \<open>fibonacci 10\<close> is 55. The code returns the value at index
  \<open>n - 1\<close>: \<open>fibonacci 6\<close> is 5 and \<open>fibonacci 10\<close> is 34, while the sequence of the
  contract has 8 and 55 there.
\<close>

theorem fibonacci_returns_index_below:
  "fibonacci 6 = Inr 5 \<and> F_spec 6 = 8 \<and> fibonacci 10 = Inr 34 \<and> F_spec 10 = 55"
  by code_simp

text \<open>
  Claim C7 says that \<open>fibonacci n = fibonacci (n - 1) + fibonacci (n - 2)\<close> from 2 on.
  At \<open>n = 3\<close> the code returns 1, and 1 for both \<open>fibonacci 2\<close> and \<open>fibonacci 1\<close>,
  whose sum is 2.
\<close>

theorem fibonacci_recurrence_fails_at_3:
  "fibonacci 3 = Inr 1 \<and> fibonacci 2 = Inr 1 \<and> fibonacci 1 = Inr 1"
  by code_simp

text \<open>
  Claim C8. \<open>fibonacci 0\<close> is 0, \<open>fibonacci 1\<close> is 1, and \<open>fibonacci n\<close> is 0 for every
  integer \<open>n\<close> that is at most 0.
\<close>

theorem fibonacci_base:
  "fibonacci 0 = Inr 0 \<and> fibonacci 1 = Inr 1 \<and> (n \<le> 0 \<longrightarrow> fibonacci n = Inr 0)"
  by (simp add: fibonacci_def)

theorem fibonacci_base_witness:
  "(-10 :: int) \<le> 0 \<and> fibonacci (-10) = Inr 0"
  using fibonacci_base [of "-10"] by simp

subsection \<open>\<open>count_vowels\<close>\<close>

lemma count_loop_filter:
  "count_loop T count = count + int (length (filter (\<lambda>c. c \<in> set vowels) T))"
  by (induction T arbitrary: count) simp_all

text \<open>On every text the result is the number of vowels of the lower-cased text plus one.\<close>

lemma count_vowels_offset:
  "count_vowels T = int (length (filter (\<lambda>c. c \<in> set vowels) (lower T))) + 1"
  by (simp add: count_vowels_def count_loop_filter)

text \<open>
  Claim C2 says that \<open>count_vowels\<close> returns the exact number of vowels, with no offset,
  so that the result for \<open>hello world\<close> is 3. The code returns \<open>count + 1\<close>: 4 for
  \<open>hello world\<close>, and 1 for the empty text, which has no vowel.
\<close>

theorem count_vowels_adds_one:
  "count_vowels ''hello world'' = 4 \<and> count_vowels [] = 1"
  by code_simp

subsection \<open>The two definitions that Python rejects\<close>

lemma calculate_average_header_rejected: "\<not> header_ok calculate_average_header"
  by (simp add: header_ok_def calculate_average_header_def)

lemma is_palindrome_condition_rejected: "\<not> condition_ok is_palindrome_condition"
  by (simp add: condition_ok_def is_palindrome_condition_def)

lemma script_rejected: "\<not> script_compiles"
  by (simp add: script_compiles_def calculate_average_header_rejected)

lemma calculate_average_raises: "calculate_average numbers = Inl SyntaxError"
  by (simp add: calculate_average_def calculate_average_header_rejected)

lemma is_palindrome_raises: "is_palindrome T = Inl SyntaxError"
  by (simp add: is_palindrome_def is_palindrome_condition_rejected)

text \<open>
  The statements below the two faulty lines are what the contract asks for: with the
  colon and the comparison token in place, the functions would return these values.
\<close>

lemma calculate_average_body_empty: "calculate_average_body [] = Inr 0"
  by (simp add: calculate_average_body_def)

lemma calculate_average_body_mean:
  "S \<noteq> [] \<Longrightarrow> calculate_average_body S = Inr (sum_list S / of_nat (length S))"
  by (simp add: calculate_average_body_def true_div_def)

lemma is_palindrome_body_iff:
  "is_palindrome_body T \<longleftrightarrow> remove_spaces (lower T) = rev (remove_spaces (lower T))"
  by (simp add: is_palindrome_body_def Let_def)

lemma is_palindrome_body_short: "is_palindrome_body [] \<and> is_palindrome_body [c]"
  by (simp add: is_palindrome_body_def remove_spaces_def lower_def Let_def)

text \<open>
  Claim C3 says that no function fails on a documented input and that no failure comes
  from malformed syntax or from an assignment used as a comparison. The code has both
  faults: \<open>calculate_average\<close> and \<open>is_palindrome\<close> raise \<open>SyntaxError\<close> on the inputs of
  the harness, and the run of the harness ends with that exception.
\<close>

theorem script_raises_syntax_error:
  "calculate_average [1, 2, 3, 4, 5] = Inl SyntaxError \<and>
   is_palindrome ''radar'' = Inl SyntaxError \<and>
   raised run_tests = Some SyntaxError"
  by (simp add: calculate_average_raises is_palindrome_raises run_tests_def
      script_rejected)

text \<open>
  Claim C4 says that \<open>calculate_average\<close> returns 0 on the empty sequence and the mean on
  a non-empty one. The definition as written, without the colon of its header, returns
  neither: it raises \<open>SyntaxError\<close> on the empty sequence and on \<open>[1, 2, 3, 4, 5]\<close>.
\<close>

theorem calculate_average_not_callable:
  "calculate_average [] = Inl SyntaxError \<and>
   calculate_average [1, 2, 3, 4, 5] = Inl SyntaxError"
  by (simp add: calculate_average_raises)

text \<open>
  Claim C6 says that \<open>is_palindrome\<close> returns true exactly on the texts whose
  normalization equals its reversal, among them the empty text and every text of one
  character. The definition as written, with \<open>=\<close> in the condition, returns no boolean: it
  raises \<open>SyntaxError\<close> on the empty text, on \<open>a\<close> and on \<open>radar\<close>.
\<close>

theorem is_palindrome_not_callable:
  "is_palindrome [] = Inl SyntaxError \<and> is_palindrome ''a'' = Inl SyntaxError \<and>
   is_palindrome ''radar'' = Inl SyntaxError"
  by (simp add: is_palindrome_raises)

subsection \<open>The harness\<close>

text \<open>
  A test block whose call returns appends its title and one verdict line, lowers the flag
  exactly on a failed comparison, and raises nothing.
\<close>

lemma test_case_returns:
  assumes "raised st = None"
  shows "printed (test_case k (Inr r) e st) =
           printed st @ [Title k, if py_eq r e then Passed r e else Failed r e]"
    and "all_passed (test_case k (Inr r) e st) = (all_passed st \<and> py_eq r e)"
    and "raised (test_case k (Inr r) e st) = None"
  using assms by (simp_all add: test_case_def print_def Let_def)

lemma summary_returns:
  assumes "raised st = None"
  shows "printed (summary st) =
           printed st @ [Rule] @
           (if all_passed st then [AllPassed, WorkingCorrectly]
            else [SomeFailed, KeepDebugging]) @
           [Rule]"
    and "raised (summary st) = None"
  using assms by (simp_all add: summary_def print_def Let_def)

text \<open>
  The body of the harness on five calls that return: whatever values \<open>r1\<close>, ...,
  \<open>r5\<close> they return, it evaluates the five cases in order, prints for each its title and
  then one line, passed or failed according to the comparison with the expected value, and
  ends with a summary between two rules. A failed comparison does not stop it.
\<close>

lemma run_tests_with_returns:
  "printed (run_tests_with (Inr r1) (Inr r2) (Inr r3) (Inr r4) (Inr r5)) =
     [Running,
      Title 1, if py_eq r1 (PNum 3) then Passed r1 (PNum 3) else Failed r1 (PNum 3),
      Title 2, if py_eq r2 (PNum 9) then Passed r2 (PNum 9) else Failed r2 (PNum 9),
      Title 3, if py_eq r3 (PBool True) then Passed r3 (PBool True)
               else Failed r3 (PBool True),
      Title 4, if py_eq r4 (PNum 3) then Passed r4 (PNum 3) else Failed r4 (PNum 3),
      Title 5, if py_eq r5 (PNum 8) then Passed r5 (PNum 8) else Failed r5 (PNum 8),
      Rule] @
     (if py_eq r1 (PNum 3) \<and> py_eq r2 (PNum 9) \<and> py_eq r3 (PBool True) \<and>
         py_eq r4 (PNum 3) \<and> py_eq r5 (PNum 8)
      then [AllPassed, WorkingCorrectly] else [SomeFailed, KeepDebugging]) @
     [Rule] \<and>
   raised (run_tests_with (Inr r1) (Inr r2) (Inr r3) (Inr r4) (Inr r5)) = None"
proof -
  define st0 where "st0 = print Running \<lparr>printed = [], all_passed = True, raised = None\<rparr>"
  define st1 where "st1 = test_case 1 (Inr r1) (PNum 3) st0"
  define st2 where "st2 = test_case 2 (Inr r2) (PNum 9) st1"
  define st3 where "st3 = test_case 3 (Inr r3) (PBool True) st2"
  define st4 where "st4 = test_case 4 (Inr r4) (PNum 3) st3"
  define st5 where "st5 = test_case 5 (Inr r5) (PNum 8) st4"
  have run: "run_tests_with (Inr r1) (Inr r2) (Inr r3) (Inr r4) (Inr r5) = summary st5"
    by (simp add: run_tests_with_def st0_def st1_def st2_def st3_def st4_def st5_def)
  have s0: "printed st0 = [Running]" "all_passed st0" "raised st0 = None"
    by (simp_all add: st0_def print_def)
  have s1: "printed st1 = printed st0 @
              [Title 1, if py_eq r1 (PNum 3) then Passed r1 (PNum 3) else Failed r1 (PNum 3)]"
    "all_passed st1 = (all_passed st0 \<and> py_eq r1 (PNum 3))" "raised st1 = None"
    unfolding st1_def using test_case_returns [OF s0(3)] by blast+
  have s2: "printed st2 = printed st1 @
              [Title 2, if py_eq r2 (PNum 9) then Passed r2 (PNum 9) else Failed r2 (PNum 9)]"
    "all_passed st2 = (all_passed st1 \<and> py_eq r2 (PNum 9))" "raised st2 = None"
    unfolding st2_def using test_case_returns [OF s1(3)] by blast+
  have s3: "printed st3 = printed st2 @
              [Title 3, if py_eq r3 (PBool True) then Passed r3 (PBool True)
                        else Failed r3 (PBool True)]"
    "all_passed st3 = (all_passed st2 \<and> py_eq r3 (PBool True))" "raised st3 = None"
    unfolding st3_def using test_case_returns [OF s2(3)] by blast+
  have s4: "printed st4 = printed st3 @
              [Title 4, if py_eq r4 (PNum 3) then Passed r4 (PNum 3) else Failed r4 (PNum 3)]"
    "all_passed st4 = (all_passed st3 \<and> py_eq r4 (PNum 3))" "raised st4 = None"
    unfolding st4_def using test_case_returns [OF s3(3)] by blast+
  have s5: "printed st5 = printed st4 @
              [Title 5, if py_eq r5 (PNum 8) then Passed r5 (PNum 8) else Failed r5 (PNum 8)]"
    "all_passed st5 = (all_passed st4 \<and> py_eq r5 (PNum 8))" "raised st5 = None"
    unfolding st5_def using test_case_returns [OF s4(3)] by blast+
  have all: "all_passed st5 =
      (py_eq r1 (PNum 3) \<and> py_eq r2 (PNum 9) \<and> py_eq r3 (PBool True) \<and>
       py_eq r4 (PNum 3) \<and> py_eq r5 (PNum 8))"
    by (simp only: s0 s1 s2 s3 s4 s5 simp_thms conj_assoc)
  have out: "printed st5 = [Running,
      Title 1, if py_eq r1 (PNum 3) then Passed r1 (PNum 3) else Failed r1 (PNum 3),
      Title 2, if py_eq r2 (PNum 9) then Passed r2 (PNum 9) else Failed r2 (PNum 9),
      Title 3, if py_eq r3 (PBool True) then Passed r3 (PBool True)
               else Failed r3 (PBool True),
      Title 4, if py_eq r4 (PNum 3) then Passed r4 (PNum 3) else Failed r4 (PNum 3),
      Title 5, if py_eq r5 (PNum 8) then Passed r5 (PNum 8) else Failed r5 (PNum 8)]"
    by (simp only: s0 s1 s2 s3 s4 s5 append.simps)
  show ?thesis
    unfolding run using summary_returns [OF s5(3)] by (simp only: out all) simp
qed

text \<open>
  Claim C9 says that the harness evaluates all five test cases in sequence, prints a pass
  or fail line for each and ends with a summary. The harness of the script does not: it
  calls \<open>calculate_average\<close> and \<open>is_palindrome\<close>, whose definitions Python rejects, so
  its run ends with \<open>SyntaxError\<close> and prints no title, no pass or fail line and no
  summary.
\<close>

theorem run_tests_halts_with_syntax_error:
  "printed run_tests = [] \<and> raised run_tests = Some SyntaxError"
  by (simp add: run_tests_def script_rejected)

end
